theory Spec2Isabelle
  imports Main
begin

section \<open>Data model of the reviewer engine (src/reviewer.js)\<close>

text \<open>
  The policy is the parsed configuration object. A key that may be missing from the
  object is an \<open>option\<close> field (\<open>None\<close>: the property read yields
  \<^verbatim>\<open>undefined\<close>). A JavaScript object used as a dictionary is an association list
  in the order in which \<^verbatim>\<open>Object.entries\<close> and \<^verbatim>\<open>Object.keys\<close> enumerate it;
  \<^verbatim>\<open>obj[key]\<close> is \<open>map_of\<close>. Identifiers, patterns and file names are strings.
  The option \<^verbatim>\<open>number_of_reviewers\<close> is a count of reviewers, a natural number.
\<close>

record options =
  enable_group_assignment :: "bool option"
  last_files_match_only :: "bool option"
  ignore_draft :: "bool option"
  ignored_keywords :: "string list option"
  number_of_reviewers :: "nat option"

text \<open>
  \<open>defaults\<close> is \<open>None\<close> when the key is missing or its value is not an array
  (the source tests \<^verbatim>\<open>Array.isArray(config.reviewers.defaults)\<close>).
\<close>

record reviewers_section =
  groups :: "(string \<times> string list) list option"
  per_author :: "(string \<times> string list) list option"
  defaults :: "string list option"

record config =
  options :: "options option"
  files :: "(string \<times> string list) list option"
  reviewers :: "reviewers_section option"

section \<open>Group Resolver: replace\_groups\_with\_individuals\<close>

text \<open>
  \<^verbatim>\<open>new Set(xs)\<close> followed by \<^verbatim>\<open>Array.from\<close> or a spread keeps the first
  occurrence of every element, in insertion order.
\<close>

definition set_add :: "'a list \<Rightarrow> 'a \<Rightarrow> 'a list" where
  "set_add acc x = (if x \<in> set acc then acc else acc @ [x])"

definition array_from_set :: "'a list \<Rightarrow> 'a list" where
  "array_from_set xs = foldl set_add [] xs"

text \<open>
  \<^verbatim>\<open>const groups = (config.reviewers && config.reviewers.groups) || {};\<close>
\<close>

definition groups_of :: "config \<Rightarrow> (string \<times> string list) list" where
  "groups_of cfg =
     (case reviewers cfg of
        None \<Rightarrow> []
      | Some r \<Rightarrow> (case groups r of None \<Rightarrow> [] | Some g \<Rightarrow> g))"

text \<open>
  The callback of \<^verbatim>\<open>flatMap\<close>:
  \<^verbatim>\<open>Array.isArray(groups[reviewer]) ? groups[reviewer] : reviewer\<close>; an array is
  spliced into the result, a plain identifier is one element.
\<close>

definition expand_reviewer :: "(string \<times> string list) list \<Rightarrow> string \<Rightarrow> string list" where
  "expand_reviewer gs reviewer =
     (case map_of gs reviewer of Some members \<Rightarrow> members | None \<Rightarrow> [reviewer])"

definition replace_groups_with_individuals ::
  "string list \<Rightarrow> config \<Rightarrow> string list \<Rightarrow> string list" where
  "replace_groups_with_individuals rs cfg excludes =
     (let gs = groups_of cfg;
          individuals = concat (map (expand_reviewer gs) rs);
          deduplicated_individuals = array_from_set individuals
      in filter (\<lambda>individual. individual \<notin> set excludes) deduplicated_individuals)"

section \<open>Option bags\<close>

text \<open>
  Every function merges its defaults with the configured options:
  \<^verbatim>\<open>{ ...DEFAULT_OPTIONS, ...config.options }\<close>. A configured option wins; a missing
  option, or a missing \<^verbatim>\<open>options\<close> object, leaves the default.
\<close>

definition option_or_default :: "config \<Rightarrow> (options \<Rightarrow> 'a option) \<Rightarrow> 'a \<Rightarrow> 'a" where
  "option_or_default cfg field dflt =
     (case options cfg of
        None \<Rightarrow> dflt
      | Some opts \<Rightarrow> (case field opts of None \<Rightarrow> dflt | Some v \<Rightarrow> v))"

section \<open>Co-Membership Finder: fetch\_other\_group\_members\<close>

text \<open>
  \<^verbatim>\<open>.filter((group_name) => group_name)\<close> keeps the truthy entries: it drops
  \<^verbatim>\<open>undefined\<close> and also the empty string.
\<close>

definition truthy_name :: "string option \<Rightarrow> bool" where
  "truthy_name g = (case g of None \<Rightarrow> False | Some n \<Rightarrow> n \<noteq> [])"

definition belonging_group_names :: "string \<Rightarrow> (string \<times> string list) list \<Rightarrow> string list" where
  "belonging_group_names author gs =
     map (\<lambda>g. case g of Some n \<Rightarrow> n | None \<Rightarrow> [])
       (filter truthy_name
          (map (\<lambda>(group_name, members). if author \<in> set members then Some group_name else None) gs))"

text \<open>
  \<^verbatim>\<open>groups[group_name]\<close> is read for names that are keys of \<^verbatim>\<open>groups\<close>, so the
  lookup finds the member array.
\<close>

definition fetch_other_group_members :: "string \<Rightarrow> config \<Rightarrow> string list" where
  "fetch_other_group_members author cfg =
     (let should_group_assign = option_or_default cfg enable_group_assignment False
      in if \<not> should_group_assign then []
         else
           let gs = groups_of cfg;
               other_group_members =
                 filter (\<lambda>group_member. group_member \<noteq> author)
                   (concat (map (\<lambda>group_name. case map_of gs group_name of Some ms \<Rightarrow> ms | None \<Rightarrow> [])
                      (belonging_group_names author gs)))
           in array_from_set other_group_members)"

section \<open>File-Rule Matcher: identify\_reviewers\_by\_changed\_files\<close>

record change_set =
  added :: "string list"
  removed :: "string list"
  modified :: "string list"

record changed_files =
  total_cs :: change_set
  last_cs :: change_set

record classification =
  matched :: "string list"
  must_be_added :: "string list"
  should_be_added :: "string list"
  could_be_removed :: "string list"

datatype js_error = TypeError

text \<open>
  The function returns the array \<^verbatim>\<open>[]\<close> when the policy has no \<^verbatim>\<open>files\<close> key and
  an object with four buckets otherwise.
\<close>

datatype files_result = Flat_Array "string list" | Buckets classification

text \<open>
  The callback of \<^verbatim>\<open>forEach\<close> destructures each entry as
  \<^verbatim>\<open>[ glob_pattern, reviewers ]\<close>: inside the callback the name \<^verbatim>\<open>reviewers\<close> is the
  rule's array of identifiers, which hides the object \<^verbatim>\<open>reviewers\<close> of the enclosing
  function. An array read from the policy has its indices and \<^verbatim>\<open>length\<close> as its only
  own properties, and \<^verbatim>\<open>Array.prototype\<close> has no property named
  \<^verbatim>\<open>matched\<close>, \<^verbatim>\<open>must_be_added\<close>, \<^verbatim>\<open>should_be_added\<close> or \<^verbatim>\<open>could_be_removed\<close>,
  so reading one of them from the rule's array gives \<^verbatim>\<open>undefined\<close> (\<open>None\<close>).
\<close>

definition array_property :: "string list \<Rightarrow> string \<Rightarrow> string list option" where
  "array_property arr name = None"

text \<open>
  \<^verbatim>\<open>target.length = 0\<close> and \<^verbatim>\<open>target.push(...items)\<close> raise TypeError when
  \<^verbatim>\<open>target\<close> is \<^verbatim>\<open>undefined\<close>.
\<close>

definition set_length_zero :: "string list option \<Rightarrow> js_error + string list option" where
  "set_length_zero target =
     (case target of None \<Rightarrow> Inl TypeError | Some xs \<Rightarrow> Inr (Some []))"

definition push_spread :: "string list option \<Rightarrow> string list \<Rightarrow> js_error + string list option" where
  "push_spread target items =
     (case target of None \<Rightarrow> Inl TypeError | Some xs \<Rightarrow> Inr (Some (xs @ items)))"

definition when_do :: "bool \<Rightarrow> js_error + 'a \<Rightarrow> js_error + unit" where
  "when_do b act = (if b then (case act of Inl e \<Rightarrow> Inl e | Inr v \<Rightarrow> Inr ()) else Inr ())"

definition then_do :: "js_error + 'a \<Rightarrow> js_error + 'b \<Rightarrow> js_error + 'b" where
  "then_do first_act second_act = (case first_act of Inl e \<Rightarrow> Inl e | Inr v \<Rightarrow> second_act)"

text \<open>
  One call of the callback. \<open>minimatch\<close> is the glob matcher of the external library,
  taken as a parameter: \<open>minimatch changed_file glob_pattern\<close>. The object of the
  enclosing function is not in scope under its name, so the callback cannot change it: the
  call either raises or has no effect.
\<close>

definition file_rule_callback ::
  "(string \<Rightarrow> string \<Rightarrow> bool) \<Rightarrow> bool \<Rightarrow> changed_files \<Rightarrow> string \<times> string list
     \<Rightarrow> js_error + unit" where
  "file_rule_callback minimatch lfmo cf entry =
     (case entry of (glob_pattern, rule_reviewers) \<Rightarrow>
        let has_matches = (\<lambda>changed_file. minimatch changed_file glob_pattern);
            last_changed_files =
              added (last_cs cf) @ removed (last_cs cf) @ modified (last_cs cf);
            added_or_deleted = added (last_cs cf) @ removed (last_cs cf);
            all_changed_files =
              added (total_cs cf) @ removed (total_cs cf) @ modified (total_cs cf);
            reverted_files =
              filter (\<lambda>changed_file. changed_file \<notin> set all_changed_files) last_changed_files
        in
          then_do
            (when_do (list_ex has_matches last_changed_files)
               (then_do
                  (when_do lfmo (set_length_zero (array_property rule_reviewers ''matched'')))
                  (push_spread (array_property rule_reviewers ''matched'') rule_reviewers)))
         (then_do
            (when_do (list_ex has_matches (modified (last_cs cf)))
               (push_spread (array_property rule_reviewers ''should_be_added'') rule_reviewers))
         (then_do
            (when_do (list_ex has_matches added_or_deleted)
               (push_spread (array_property rule_reviewers ''must_be_added'') rule_reviewers))
            (when_do (list_ex has_matches reverted_files)
               (push_spread (array_property rule_reviewers ''could_be_removed'') rule_reviewers)))))"

text \<open>\<^verbatim>\<open>forEach\<close>: the first exception ends the iteration.\<close>

fun for_each :: "('a \<Rightarrow> js_error + unit) \<Rightarrow> 'a list \<Rightarrow> js_error + unit" where
  "for_each f [] = Inr ()"
| "for_each f (x # xs) = (case f x of Inl e \<Rightarrow> Inl e | Inr u \<Rightarrow> for_each f xs)"

definition identify_reviewers_by_changed_files ::
  "(string \<Rightarrow> string \<Rightarrow> bool) \<Rightarrow> config \<Rightarrow> changed_files \<Rightarrow> string list
     \<Rightarrow> js_error + files_result" where
  "identify_reviewers_by_changed_files minimatch cfg cf excludes =
     (let lfmo = option_or_default cfg last_files_match_only False
      in case files cfg of
           None \<Rightarrow> Inr (Flat_Array [])
         | Some file_rules \<Rightarrow>
            (let reviewers_obj =
                   \<lparr>matched = [], must_be_added = [], should_be_added = [],
                    could_be_removed = []\<rparr>
             in (case for_each (file_rule_callback minimatch lfmo cf) file_rules of
                  Inl e \<Rightarrow> Inl e
                | Inr u \<Rightarrow>
                    Inr (Buckets
                      \<lparr>matched =
                         replace_groups_with_individuals (matched reviewers_obj) cfg excludes,
                       must_be_added =
                         replace_groups_with_individuals (must_be_added reviewers_obj) cfg excludes,
                       should_be_added =
                         replace_groups_with_individuals (should_be_added reviewers_obj) cfg excludes,
                       could_be_removed =
                         replace_groups_with_individuals (could_be_removed reviewers_obj) cfg excludes\<rparr>))))"

text \<open>
  Modelled from the spec: the glob matcher \<^verbatim>\<open>minimatch\<close> is an external library and not
  part of the sources. The spec says that matching uses shell-style patterns evaluated
  against forward-slash-delimited relative paths. The model covers the fragment used in
  the examples below: a literal character matches itself, \<^verbatim>\<open>?\<close> matches one character
  other than the slash, and \<^verbatim>\<open>*\<close> matches any run of characters other than the slash.
  It leaves out \<^verbatim>\<open>**\<close>, character classes, braces, negation and the library's rule
  for names with a leading dot, and it is applied below only to literal and single-star
  patterns against names without a leading dot, where it agrees with the library.
\<close>

fun glob_match :: "string \<Rightarrow> string \<Rightarrow> bool" where
  "glob_match [] [] = True"
| "glob_match [] (c # cs) = False"
| "glob_match (p # ps) [] = (p = CHR ''*'' \<and> glob_match ps [])"
| "glob_match (p # ps) (c # cs) =
     (if p = CHR ''*'' then
        (glob_match ps (c # cs) \<or> (c \<noteq> CHR ''/'' \<and> glob_match (p # ps) cs))
      else if p = CHR ''?'' then (c \<noteq> CHR ''/'' \<and> glob_match ps cs)
      else (p = c \<and> glob_match ps cs))"

definition minimatch_model :: "string \<Rightarrow> string \<Rightarrow> bool" where
  "minimatch_model changed_file glob_pattern = glob_match glob_pattern changed_file"

section \<open>Author-Rule Matcher: identify\_reviewers\_by\_author\<close>

definition matching_authors ::
  "config \<Rightarrow> (string \<times> string list) list \<Rightarrow> string \<Rightarrow> string list" where
  "matching_authors cfg pa specified_author =
     filter
       (\<lambda>author.
          if author = specified_author then True
          else if specified_author \<in> set (replace_groups_with_individuals [author] cfg []) then True
          else False)
       (map fst pa)"

text \<open>
  \<^verbatim>\<open>config.reviewers.per_author[matching_author] || []\<close>: a matching author is a key
  of \<^verbatim>\<open>per_author\<close> and an array is truthy, also when it is empty.
\<close>

definition matching_reviewers ::
  "config \<Rightarrow> (string \<times> string list) list \<Rightarrow> string \<Rightarrow> string list" where
  "matching_reviewers cfg pa specified_author =
     concat
       (map (\<lambda>matching_author.
               replace_groups_with_individuals
                 (case map_of pa matching_author of Some rs \<Rightarrow> rs | None \<Rightarrow> []) cfg [])
          (matching_authors cfg pa specified_author))"

definition identify_reviewers_by_author :: "config \<Rightarrow> string \<Rightarrow> string list" where
  "identify_reviewers_by_author cfg specified_author =
     (case reviewers cfg of
        None \<Rightarrow> []
      | Some r \<Rightarrow>
          (case per_author r of
             None \<Rightarrow> []
           | Some pa \<Rightarrow>
               filter (\<lambda>reviewer. reviewer \<noteq> specified_author)
                 (matching_reviewers cfg pa specified_author)))"

section \<open>Request Gate: should\_request\_review\<close>

text \<open>\<^verbatim>\<open>title.includes(keyword)\<close>: the keyword starts at some position of the title.\<close>

fun starts_with :: "string \<Rightarrow> string \<Rightarrow> bool" where
  "starts_with s [] = True"
| "starts_with [] (k # ks) = False"
| "starts_with (c # cs) (k # ks) = (c = k \<and> starts_with cs ks)"

fun includes_str :: "string \<Rightarrow> string \<Rightarrow> bool" where
  "includes_str [] keyword = starts_with [] keyword"
| "includes_str (c # cs) keyword = (starts_with (c # cs) keyword \<or> includes_str cs keyword)"

definition should_request_review :: "string \<Rightarrow> bool \<Rightarrow> config \<Rightarrow> bool" where
  "should_request_review title is_draft cfg =
     (let should_ignore_draft = option_or_default cfg ignore_draft True;
          keywords = option_or_default cfg ignored_keywords [''DO NOT REVIEW'']
      in if should_ignore_draft \<and> is_draft then False
         else \<not> list_ex (\<lambda>keyword. includes_str title keyword) keywords)"

section \<open>Default Reviewer Selector: fetch\_default\_reviewers\<close>

definition fetch_default_reviewers :: "config \<Rightarrow> string list \<Rightarrow> string list" where
  "fetch_default_reviewers cfg excludes =
     (case reviewers cfg of
        None \<Rightarrow> []
      | Some r \<Rightarrow>
          (case defaults r of
             None \<Rightarrow> []
           | Some ds \<Rightarrow>
               let individuals = replace_groups_with_individuals ds cfg []
               in filter (\<lambda>reviewer. reviewer \<notin> set excludes) (array_from_set individuals)))"

section \<open>Sampler: randomly\_pick\_reviewers\<close>

text \<open>
  Modelled from the spec: \<^verbatim>\<open>sample_size\<close> is lodash's \<^verbatim>\<open>sampleSize\<close>, an external
  library that is not part of the sources. The spec says that it returns a random subset of
  the requested size without replacement, capped at the population size, from a source of
  randomness that the policy does not control. The model takes the source of randomness
  as a function \<open>rnd\<close> from the number of the draw to a natural number; each draw removes
  the element at position \<open>rnd i mod length pool\<close> from the pool.
\<close>

fun draw :: "(nat \<Rightarrow> nat) \<Rightarrow> nat \<Rightarrow> 'a list \<Rightarrow> nat \<Rightarrow> 'a list" where
  "draw rnd i pool 0 = []"
| "draw rnd i pool (Suc n) =
     (if pool = [] then []
      else
        let j = rnd i mod length pool
        in pool ! j # draw rnd (Suc i) (take j pool @ drop (Suc j) pool) n)"

definition sample_size :: "(nat \<Rightarrow> nat) \<Rightarrow> 'a list \<Rightarrow> nat \<Rightarrow> 'a list" where
  "sample_size rnd xs k = draw rnd 0 xs (min k (length xs))"

text \<open>
  \<^verbatim>\<open>const { number_of_reviewers } = { ...config.options };\<close> There is no default:
  the value is \<^verbatim>\<open>undefined\<close> when the option or the options object is missing.
\<close>

definition configured_number_of_reviewers :: "config \<Rightarrow> nat option" where
  "configured_number_of_reviewers cfg =
     (case options cfg of None \<Rightarrow> None | Some opts \<Rightarrow> number_of_reviewers opts)"

definition randomly_pick_reviewers :: "(nat \<Rightarrow> nat) \<Rightarrow> string list \<Rightarrow> config \<Rightarrow> string list" where
  "randomly_pick_reviewers rnd rs cfg =
     (case configured_number_of_reviewers cfg of
        None \<Rightarrow> rs
      | Some k \<Rightarrow> sample_size rnd rs k)"

section \<open>Properties of the Group Resolver\<close>

lemma set_foldl_set_add: "set (foldl set_add acc xs) = set acc \<union> set xs"
  by (induction xs arbitrary: acc) (auto simp: set_add_def)

lemma distinct_foldl_set_add: "distinct acc \<Longrightarrow> distinct (foldl set_add acc xs)"
  by (induction xs arbitrary: acc) (auto simp: set_add_def)

lemma foldl_set_add_distinct:
  "distinct (acc @ xs) \<Longrightarrow> foldl set_add acc xs = acc @ xs"
  by (induction xs arbitrary: acc) (auto simp: set_add_def)

lemma set_array_from_set: "set (array_from_set xs) = set xs"
  by (simp add: array_from_set_def set_foldl_set_add)

lemma distinct_array_from_set: "distinct (array_from_set xs)"
  by (simp add: array_from_set_def distinct_foldl_set_add)

lemma array_from_set_distinct: "distinct xs \<Longrightarrow> array_from_set xs = xs"
  using foldl_set_add_distinct [of "[]" xs] by (simp add: array_from_set_def)

lemma distinct_replace_groups: "distinct (replace_groups_with_individuals rs cfg ex)"
  by (simp add: replace_groups_with_individuals_def Let_def distinct_array_from_set)

lemma replace_groups_excludes:
  "x \<in> set (replace_groups_with_individuals rs cfg ex) \<Longrightarrow> x \<notin> set ex"
  by (simp add: replace_groups_with_individuals_def Let_def)

lemma replace_groups_nil: "replace_groups_with_individuals [] cfg ex = []"
  by (simp add: replace_groups_with_individuals_def Let_def array_from_set_def)

lemma concat_expand_group_free:
  "\<forall>r \<in> set rs. map_of gs r = None \<Longrightarrow> concat (map (expand_reviewer gs) rs) = rs"
  by (induction rs) (auto simp: expand_reviewer_def)

lemma replace_groups_group_free:
  "\<forall>r \<in> set rs. map_of (groups_of cfg) r = None \<Longrightarrow>
   replace_groups_with_individuals rs cfg [] = array_from_set rs"
  by (simp add: replace_groups_with_individuals_def Let_def concat_expand_group_free)

section \<open>What the file-rule loop computes\<close>

lemma callback_result:
  "file_rule_callback mm lfmo cf (g, rs) =
     (if list_ex (\<lambda>f. mm f g) (added (last_cs cf) @ removed (last_cs cf) @ modified (last_cs cf))
      then Inl TypeError else Inr ())"
  by (auto simp: file_rule_callback_def Let_def when_do_def then_do_def array_property_def
      set_length_zero_def push_spread_def list_ex_iff)

lemma for_each_callback:
  "for_each (file_rule_callback mm lfmo cf) fs =
     (if list_ex (\<lambda>(g, rs). list_ex (\<lambda>f. mm f g)
            (added (last_cs cf) @ removed (last_cs cf) @ modified (last_cs cf))) fs
      then Inl TypeError else Inr ())"
proof (induction fs)
  case Nil
  show ?case by simp
next
  case (Cons e fs)
  obtain g rs where e: "e = (g, rs)" by (cases e)
  show ?case using Cons by (simp add: e callback_result)
qed

lemma identify_result:
  "identify_reviewers_by_changed_files mm cfg cf ex =
     (case files cfg of
        None \<Rightarrow> Inr (Flat_Array [])
      | Some fs \<Rightarrow>
          if list_ex (\<lambda>(g, rs). list_ex (\<lambda>f. mm f g)
               (added (last_cs cf) @ removed (last_cs cf) @ modified (last_cs cf))) fs
          then Inl TypeError
          else Inr (Buckets \<lparr>matched = [], must_be_added = [], should_be_added = [],
                 could_be_removed = []\<rparr>))"
  by (simp add: identify_reviewers_by_changed_files_def Let_def for_each_callback
      replace_groups_nil split: option.splits)

section \<open>Substring search\<close>

lemma starts_with_iff: "starts_with s k \<longleftrightarrow> (\<exists>post. s = k @ post)"
  by (induction s k rule: starts_with.induct) auto

lemma includes_str_iff: "includes_str t k \<longleftrightarrow> (\<exists>pre post. t = pre @ k @ post)"
proof (induction t)
  case Nil
  show ?case by (cases k) auto
next
  case (Cons c cs)
  show ?case
  proof
    assume "includes_str (c # cs) k"
    then consider "starts_with (c # cs) k" | "includes_str cs k" by auto
    then show "\<exists>pre post. c # cs = pre @ k @ post"
    proof cases
      case 1
      then obtain post where "c # cs = k @ post" by (auto simp: starts_with_iff)
      then have "c # cs = [] @ k @ post" by simp
      then show ?thesis by blast
    next
      case 2
      then obtain pre post where "cs = pre @ k @ post" using Cons by auto
      then have "c # cs = (c # pre) @ k @ post" by simp
      then show ?thesis by blast
    qed
  next
    assume "\<exists>pre post. c # cs = pre @ k @ post"
    then obtain pre post where eq: "c # cs = pre @ k @ post" by blast
    show "includes_str (c # cs) k"
    proof (cases pre)
      case Nil
      then have "starts_with (c # cs) k" using eq by (auto simp: starts_with_iff)
      then show ?thesis by simp
    next
      case (Cons p ps)
      then have "cs = ps @ k @ post" using eq by simp
      then have "includes_str cs k" using Cons.IH by blast
      then show ?thesis by simp
    qed
  qed
qed

section \<open>Drawing without replacement\<close>

lemma length_draw: "length (draw rnd i pool n) = min n (length pool)"
proof (induction n arbitrary: i pool)
  case 0
  show ?case by simp
next
  case (Suc n)
  show ?case
  proof (cases "pool = []")
    case True
    then show ?thesis by simp
  next
    case False
    let ?j = "rnd i mod length pool"
    have pos: "0 < length pool" using False by simp
    then have j: "?j < length pool" by simp
    then have "length (take ?j pool @ drop (Suc ?j) pool) = length pool - 1" by simp
    then have "length (draw rnd (Suc i) (take ?j pool @ drop (Suc ?j) pool) n)
        = min n (length pool - 1)" using Suc.IH by simp
    moreover have "Suc (min n (length pool - 1)) = min (Suc n) (length pool)"
      using pos by arith
    ultimately show ?thesis using False by (simp add: Let_def)
  qed
qed

lemma set_draw: "set (draw rnd i pool n) \<subseteq> set pool"
proof (induction n arbitrary: i pool)
  case 0
  show ?case by simp
next
  case (Suc n)
  show ?case
  proof (cases "pool = []")
    case True
    then show ?thesis by simp
  next
    case False
    let ?j = "rnd i mod length pool"
    have j: "?j < length pool" using False by simp
    have rest: "set (take ?j pool @ drop (Suc ?j) pool) \<subseteq> set pool"
      using set_take_subset [of ?j pool] set_drop_subset [of "Suc ?j" pool] by auto
    have "set (draw rnd (Suc i) (take ?j pool @ drop (Suc ?j) pool) n) \<subseteq> set pool"
      using Suc.IH rest by blast
    then show ?thesis using False j by (simp add: Let_def)
  qed
qed

section \<open>Duplicates and the shape of the returned buckets\<close>

lemma distinct_fetch_other_group_members: "distinct (fetch_other_group_members a cfg)"
  by (simp add: fetch_other_group_members_def Let_def distinct_array_from_set)

lemma distinct_fetch_default_reviewers: "distinct (fetch_default_reviewers cfg ex)"
  by (simp add: fetch_default_reviewers_def Let_def distinct_array_from_set
      split: option.splits)

lemma identify_buckets_form:
  "identify_reviewers_by_changed_files mm cfg cf ex = Inr (Buckets b) \<Longrightarrow>
   b = \<lparr>matched = replace_groups_with_individuals [] cfg ex,
        must_be_added = replace_groups_with_individuals [] cfg ex,
        should_be_added = replace_groups_with_individuals [] cfg ex,
        could_be_removed = replace_groups_with_individuals [] cfg ex\<rparr>"
  by (auto simp: identify_reviewers_by_changed_files_def Let_def
      split: option.splits sum.splits)

lemma identify_flat_form:
  "identify_reviewers_by_changed_files mm cfg cf ex = Inr (Flat_Array xs) \<Longrightarrow> xs = []"
  by (auto simp: identify_reviewers_by_changed_files_def Let_def
      split: option.splits sum.splits)

section \<open>The claims\<close>

subsection \<open>C1: the File-Rule Matcher and exceptions\<close>

text \<open>
  Claim C1 says that \<^verbatim>\<open>identify_reviewers_by_changed_files\<close> returns a result for
  every well-typed policy and change set, also when a glob rule matches a changed file.
  The code raises instead. With the rule \<^verbatim>\<open>README.md -> [alice]\<close> and the file
  \<^verbatim>\<open>README.md\<close> modified in the last commit, \<^verbatim>\<open>last_changed_files.some(has_matches)\<close>
  holds and \<^verbatim>\<open>reviewers.matched.push(...reviewers)\<close> is evaluated with \<^verbatim>\<open>reviewers\<close>
  bound to the rule's array \<^verbatim>\<open>[alice]\<close>: \<^verbatim>\<open>reviewers.matched\<close> is \<^verbatim>\<open>undefined\<close>
  and the call raises TypeError.
\<close>

theorem matching_rule_raises:
  "identify_reviewers_by_changed_files minimatch_model
     \<lparr>options = None, files = Some [(''README.md'', [''alice''])], reviewers = None\<rparr>
     \<lparr>total_cs = \<lparr>added = [], removed = [], modified = [''README.md'']\<rparr>,
      last_cs = \<lparr>added = [], removed = [], modified = [''README.md'']\<rparr>\<rparr> []
   = Inl TypeError"
  by (simp add: identify_reviewers_by_changed_files_def option_or_default_def
      file_rule_callback_def when_do_def then_do_def push_spread_def array_property_def
      minimatch_model_def)

subsection \<open>C2: revert classification\<close>

text \<open>
  Claim C2 says that for \<^verbatim>\<open>total = {added: [], removed: [], modified: []}\<close>,
  \<^verbatim>\<open>last = {added: [a.txt], removed: [], modified: []}\<close> and the single rule
  \<^verbatim>\<open>*.txt -> [bob]\<close> the result has \<^verbatim>\<open>bob\<close> in \<^verbatim>\<open>could_be_removed\<close> and in
  \<^verbatim>\<open>must_be_added\<close>. On this input the code returns no classification: the pattern
  matches \<^verbatim>\<open>a.txt\<close>, and the first push onto \<^verbatim>\<open>reviewers.matched\<close> raises TypeError
  before any bucket is filled.
\<close>

theorem revert_classification_raises:
  "identify_reviewers_by_changed_files minimatch_model
     \<lparr>options = None, files = Some [(''*.txt'', [''bob''])], reviewers = None\<rparr>
     \<lparr>total_cs = \<lparr>added = [], removed = [], modified = []\<rparr>,
      last_cs = \<lparr>added = [''a.txt''], removed = [], modified = []\<rparr>\<rparr> []
   = Inl TypeError"
  by (simp add: identify_reviewers_by_changed_files_def option_or_default_def
      file_rule_callback_def when_do_def then_do_def push_spread_def array_property_def
      minimatch_model_def)

subsection \<open>C3: last\_files\_match\_only\<close>

text \<open>
  Claim C3 says that with \<^verbatim>\<open>last_files_match_only\<close> enabled the bucket \<^verbatim>\<open>matched\<close>
  ends up holding the reviewers of the most recently evaluated matching rule. With the
  option enabled and the rules \<^verbatim>\<open>*.txt -> [alice]\<close> and \<^verbatim>\<open>a.* -> [bob]\<close>, both of which
  match the added file \<^verbatim>\<open>a.txt\<close>, the claim expects \<^verbatim>\<open>matched = [bob]\<close>. The code
  raises TypeError at \<^verbatim>\<open>reviewers.matched.length = 0\<close> while it evaluates the first
  rule.
\<close>

theorem last_files_match_only_raises:
  "identify_reviewers_by_changed_files minimatch_model
     \<lparr>options = Some \<lparr>enable_group_assignment = None, last_files_match_only = Some True,
          ignore_draft = None, ignored_keywords = None, number_of_reviewers = None\<rparr>,
      files = Some [(''*.txt'', [''alice'']), (''a.*'', [''bob''])], reviewers = None\<rparr>
     \<lparr>total_cs = \<lparr>added = [''a.txt''], removed = [], modified = []\<rparr>,
      last_cs = \<lparr>added = [''a.txt''], removed = [], modified = []\<rparr>\<rparr> []
   = Inl TypeError"
  by (simp add: identify_reviewers_by_changed_files_def option_or_default_def
      file_rule_callback_def when_do_def then_do_def push_spread_def set_length_zero_def
      array_property_def minimatch_model_def)

subsection \<open>C4: duplicates in the returned lists\<close>

text \<open>
  Claim C4 says that no list returned by an engine operation repeats an identifier, and
  names the output of \<^verbatim>\<open>identify_reviewers_by_author\<close> when the author matches several
  rule keys whose reviewer lists overlap. The Group Resolver, \<^verbatim>\<open>fetch_default_reviewers\<close>
  and \<^verbatim>\<open>fetch_other_group_members\<close> pass their result through a \<^verbatim>\<open>Set\<close>
  (\<open>distinct_replace_groups\<close>, \<open>distinct_fetch_default_reviewers\<close>,
  \<open>distinct_fetch_other_group_members\<close>). \<^verbatim>\<open>identify_reviewers_by_author\<close> has the same
  shape as \<^verbatim>\<open>fetch_other_group_members\<close>, a \<^verbatim>\<open>flatMap\<close> followed by a filter on the
  author, but returns the filtered list without the \<^verbatim>\<open>Set\<close>. With the group
  \<^verbatim>\<open>backend = [alice, carol]\<close> and the rules \<^verbatim>\<open>alice -> [bob]\<close> and
  \<^verbatim>\<open>backend -> [bob]\<close>, the author \<^verbatim>\<open>alice\<close> matches both keys and the output is
  \<^verbatim>\<open>[bob, bob]\<close>, which repeats \<^verbatim>\<open>bob\<close>.
\<close>

theorem overlapping_author_rules_repeat:
  "identify_reviewers_by_author
     \<lparr>options = None, files = None,
      reviewers = Some \<lparr>groups = Some [(''backend'', [''alice'', ''carol''])],
        per_author = Some [(''alice'', [''bob'']), (''backend'', [''bob''])],
        defaults = None\<rparr>\<rparr> ''alice'' = [''bob'', ''bob'']
   \<and> \<not> distinct (identify_reviewers_by_author
     \<lparr>options = None, files = None,
      reviewers = Some \<lparr>groups = Some [(''backend'', [''alice'', ''carol''])],
        per_author = Some [(''alice'', [''bob'']), (''backend'', [''bob''])],
        defaults = None\<rparr>\<rparr> ''alice'')"
  by (simp add: identify_reviewers_by_author_def matching_reviewers_def matching_authors_def
      replace_groups_with_individuals_def groups_of_def expand_reviewer_def array_from_set_def
      set_add_def)

subsection \<open>C5: the exclusion set\<close>

text \<open>
  Claim C5: for every exclusion set \<open>ex\<close>, no identifier of \<open>ex\<close> occurs in the
  output of the Group Resolver, in the output of \<^verbatim>\<open>fetch_default_reviewers\<close>, or in any
  bucket (or flat array) that \<^verbatim>\<open>identify_reviewers_by_changed_files\<close> returns.
\<close>

theorem results_avoid_excludes:
  "set (replace_groups_with_individuals rs cfg ex) \<inter> set ex = {}
   \<and> set (fetch_default_reviewers cfg ex) \<inter> set ex = {}
   \<and> (\<forall>b. identify_reviewers_by_changed_files mm cfg cf ex = Inr (Buckets b) \<longrightarrow>
        (set (matched b) \<union> set (must_be_added b) \<union> set (should_be_added b)
           \<union> set (could_be_removed b)) \<inter> set ex = {})
   \<and> (\<forall>xs. identify_reviewers_by_changed_files mm cfg cf ex = Inr (Flat_Array xs) \<longrightarrow>
        set xs \<inter> set ex = {})"
proof (intro conjI allI impI)
  show "set (replace_groups_with_individuals rs cfg ex) \<inter> set ex = {}"
    using replace_groups_excludes by blast
next
  show "set (fetch_default_reviewers cfg ex) \<inter> set ex = {}"
    by (auto simp: fetch_default_reviewers_def Let_def split: option.splits)
next
  fix b assume "identify_reviewers_by_changed_files mm cfg cf ex = Inr (Buckets b)"
  from identify_buckets_form [OF this]
  have "matched b = replace_groups_with_individuals [] cfg ex"
    "must_be_added b = replace_groups_with_individuals [] cfg ex"
    "should_be_added b = replace_groups_with_individuals [] cfg ex"
    "could_be_removed b = replace_groups_with_individuals [] cfg ex"
    by simp_all
  then show "(set (matched b) \<union> set (must_be_added b) \<union> set (should_be_added b)
           \<union> set (could_be_removed b)) \<inter> set ex = {}"
    using replace_groups_excludes [of _ "[]" cfg ex] by auto
next
  fix xs assume "identify_reviewers_by_changed_files mm cfg cf ex = Inr (Flat_Array xs)"
  from identify_flat_form [OF this] show "set xs \<inter> set ex = {}" by simp
qed

text \<open>
  Claim C5 at a concrete input: the group \<^verbatim>\<open>backend\<close> contains the excluded
  \<^verbatim>\<open>bob\<close>, who is removed from the expansion.
\<close>

theorem results_avoid_excludes_witness:
  "identify_reviewers_by_changed_files minimatch_model
     \<lparr>options = None, files = Some [(''*.md'', [''bob''])],
      reviewers = Some \<lparr>groups = Some [(''backend'', [''alice'', ''bob''])],
        per_author = None, defaults = Some [''backend'', ''carol'', ''bob'']\<rparr>\<rparr>
     \<lparr>total_cs = \<lparr>added = [''a.txt''], removed = [], modified = []\<rparr>,
      last_cs = \<lparr>added = [''a.txt''], removed = [], modified = []\<rparr>\<rparr> [''bob'']
     = Inr (Buckets \<lparr>matched = [], must_be_added = [], should_be_added = [],
         could_be_removed = []\<rparr>)
   \<and> replace_groups_with_individuals [''backend'', ''carol'']
       \<lparr>options = None, files = Some [(''*.md'', [''bob''])],
        reviewers = Some \<lparr>groups = Some [(''backend'', [''alice'', ''bob''])],
          per_author = None, defaults = Some [''backend'', ''carol'', ''bob'']\<rparr>\<rparr> [''bob'']
     = [''alice'', ''carol'']
   \<and> set (replace_groups_with_individuals [''backend'', ''carol'']
       \<lparr>options = None, files = Some [(''*.md'', [''bob''])],
        reviewers = Some \<lparr>groups = Some [(''backend'', [''alice'', ''bob''])],
          per_author = None, defaults = Some [''backend'', ''carol'', ''bob'']\<rparr>\<rparr> [''bob''])
       \<inter> set [''bob''] = {}
   \<and> set (fetch_default_reviewers
       \<lparr>options = None, files = Some [(''*.md'', [''bob''])],
        reviewers = Some \<lparr>groups = Some [(''backend'', [''alice'', ''bob''])],
          per_author = None, defaults = Some [''backend'', ''carol'', ''bob'']\<rparr>\<rparr> [''bob''])
       \<inter> set [''bob''] = {}"
proof -
  let ?cf = "\<lparr>total_cs = \<lparr>added = [''a.txt''], removed = [], modified = []\<rparr>,
      last_cs = \<lparr>added = [''a.txt''], removed = [], modified = []\<rparr>\<rparr>"
  let ?cfg = "\<lparr>options = None, files = Some [(''*.md'', [''bob''])],
      reviewers = Some \<lparr>groups = Some [(''backend'', [''alice'', ''bob''])],
        per_author = None, defaults = Some [''backend'', ''carol'', ''bob'']\<rparr>\<rparr>"
  have b: "identify_reviewers_by_changed_files minimatch_model ?cfg ?cf [''bob'']
     = Inr (Buckets \<lparr>matched = [], must_be_added = [], should_be_added = [],
         could_be_removed = []\<rparr>)"
    by (simp add: identify_result minimatch_model_def)
  have v: "replace_groups_with_individuals [''backend'', ''carol''] ?cfg [''bob'']
     = [''alice'', ''carol'']"
    by (simp add: replace_groups_with_individuals_def groups_of_def
        expand_reviewer_def array_from_set_def set_add_def)
  show ?thesis
    using b v results_avoid_excludes [of "[''backend'', ''carol'']" ?cfg "[''bob'']"
        minimatch_model ?cf]
    by simp
qed

subsection \<open>C6: the author is never in the output\<close>

text \<open>
  Claim C6: the output of \<^verbatim>\<open>identify_reviewers_by_author\<close> never contains the
  specified author, and the output of \<^verbatim>\<open>fetch_other_group_members\<close> never contains the
  queried author, for every author and policy.
\<close>

theorem author_never_in_own_output:
  "a \<notin> set (identify_reviewers_by_author cfg a) \<and> a \<notin> set (fetch_other_group_members a cfg)"
  by (simp add: identify_reviewers_by_author_def fetch_other_group_members_def Let_def
      set_array_from_set split: option.splits)

text \<open>
  Claim C6 at a concrete input: \<^verbatim>\<open>alice\<close> is a member of the matched group
  \<^verbatim>\<open>backend\<close>, which is also a reviewer of its own rule, and group assignment is
  enabled.
\<close>

theorem author_never_in_own_output_witness:
  "identify_reviewers_by_author
     \<lparr>options = Some \<lparr>enable_group_assignment = Some True, last_files_match_only = None,
          ignore_draft = None, ignored_keywords = None, number_of_reviewers = None\<rparr>,
      files = None,
      reviewers = Some \<lparr>groups = Some [(''backend'', [''alice'', ''carol''])],
        per_author = Some [(''backend'', [''backend'', ''bob''])], defaults = None\<rparr>\<rparr> ''alice''
     = [''carol'', ''bob'']
   \<and> fetch_other_group_members ''alice''
     \<lparr>options = Some \<lparr>enable_group_assignment = Some True, last_files_match_only = None,
          ignore_draft = None, ignored_keywords = None, number_of_reviewers = None\<rparr>,
      files = None,
      reviewers = Some \<lparr>groups = Some [(''backend'', [''alice'', ''carol''])],
        per_author = Some [(''backend'', [''backend'', ''bob''])], defaults = None\<rparr>\<rparr>
     = [''carol'']
   \<and> ''alice'' \<notin> set (identify_reviewers_by_author
     \<lparr>options = Some \<lparr>enable_group_assignment = Some True, last_files_match_only = None,
          ignore_draft = None, ignored_keywords = None, number_of_reviewers = None\<rparr>,
      files = None,
      reviewers = Some \<lparr>groups = Some [(''backend'', [''alice'', ''carol''])],
        per_author = Some [(''backend'', [''backend'', ''bob''])], defaults = None\<rparr>\<rparr> ''alice'')
   \<and> ''alice'' \<notin> set (fetch_other_group_members ''alice''
     \<lparr>options = Some \<lparr>enable_group_assignment = Some True, last_files_match_only = None,
          ignore_draft = None, ignored_keywords = None, number_of_reviewers = None\<rparr>,
      files = None,
      reviewers = Some \<lparr>groups = Some [(''backend'', [''alice'', ''carol''])],
        per_author = Some [(''backend'', [''backend'', ''bob''])], defaults = None\<rparr>\<rparr>)"
proof -
  let ?cfg = "\<lparr>options = Some \<lparr>enable_group_assignment = Some True, last_files_match_only = None,
          ignore_draft = None, ignored_keywords = None, number_of_reviewers = None\<rparr>,
      files = None,
      reviewers = Some \<lparr>groups = Some [(''backend'', [''alice'', ''carol''])],
        per_author = Some [(''backend'', [''backend'', ''bob''])], defaults = None\<rparr>\<rparr>"
  have a: "identify_reviewers_by_author ?cfg ''alice'' = [''carol'', ''bob'']"
    by (simp add: identify_reviewers_by_author_def matching_reviewers_def matching_authors_def
        replace_groups_with_individuals_def groups_of_def expand_reviewer_def array_from_set_def
        set_add_def)
  have g: "fetch_other_group_members ''alice'' ?cfg = [''carol'']"
    by (simp add: fetch_other_group_members_def option_or_default_def belonging_group_names_def
        truthy_name_def groups_of_def array_from_set_def set_add_def)
  show ?thesis
    using a g author_never_in_own_output [of "''alice''" ?cfg] by simp
qed

subsection \<open>C7: the Request Gate\<close>

text \<open>
  Claim C7: \<^verbatim>\<open>should_request_review\<close> returns false when \<^verbatim>\<open>ignore_draft\<close>
  (default true) holds and the pull request is a draft; otherwise it returns true if and
  only if no configured ignored keyword (default \<^verbatim>\<open>DO NOT REVIEW\<close>) occurs in the title
  as a literal substring. With empty options, the title \<^verbatim>\<open>WIP\<close> on a draft gives false,
  \<^verbatim>\<open>Add feature DO NOT REVIEW yet\<close> on a non-draft gives false, and \<^verbatim>\<open>Add feature\<close>
  on a non-draft gives true.
\<close>

theorem should_request_review_spec:
  "should_request_review title is_draft cfg =
     (if option_or_default cfg ignore_draft True \<and> is_draft then False
      else \<not> (\<exists>keyword \<in> set (option_or_default cfg ignored_keywords [''DO NOT REVIEW'']).
                \<exists>pre post. title = pre @ keyword @ post))
   \<and> should_request_review ''WIP'' True
        \<lparr>options = Some \<lparr>enable_group_assignment = None, last_files_match_only = None,
           ignore_draft = None, ignored_keywords = None, number_of_reviewers = None\<rparr>,
         files = fs, reviewers = rv\<rparr> = False
   \<and> should_request_review ''Add feature DO NOT REVIEW yet'' False
        \<lparr>options = Some \<lparr>enable_group_assignment = None, last_files_match_only = None,
           ignore_draft = None, ignored_keywords = None, number_of_reviewers = None\<rparr>,
         files = fs, reviewers = rv\<rparr> = False
   \<and> should_request_review ''Add feature'' False
        \<lparr>options = Some \<lparr>enable_group_assignment = None, last_files_match_only = None,
           ignore_draft = None, ignored_keywords = None, number_of_reviewers = None\<rparr>,
         files = fs, reviewers = rv\<rparr> = True"
proof (intro conjI)
  show "should_request_review title is_draft cfg =
     (if option_or_default cfg ignore_draft True \<and> is_draft then False
      else \<not> (\<exists>keyword \<in> set (option_or_default cfg ignored_keywords [''DO NOT REVIEW'']).
                \<exists>pre post. title = pre @ keyword @ post))"
    by (simp add: should_request_review_def Let_def list_ex_iff includes_str_iff)
qed (simp_all add: should_request_review_def option_or_default_def)

text \<open>
  Claim C7 at a concrete input: drafts are not ignored, and the second configured
  keyword occurs inside the title.
\<close>

theorem should_request_review_spec_witness:
  "(''DO NOT MERGE'' \<in> set (option_or_default
        \<lparr>options = Some \<lparr>enable_group_assignment = None, last_files_match_only = None,
           ignore_draft = Some False, ignored_keywords = Some [''WIP'', ''DO NOT MERGE''],
           number_of_reviewers = None\<rparr>,
         files = None, reviewers = None\<rparr> ignored_keywords [''DO NOT REVIEW''])
    \<and> ''Fix DO NOT MERGE yet'' = ''Fix '' @ ''DO NOT MERGE'' @ '' yet'')
   \<and> should_request_review ''Fix DO NOT MERGE yet'' True
        \<lparr>options = Some \<lparr>enable_group_assignment = None, last_files_match_only = None,
           ignore_draft = Some False, ignored_keywords = Some [''WIP'', ''DO NOT MERGE''],
           number_of_reviewers = None\<rparr>,
         files = None, reviewers = None\<rparr> = False"
proof -
  let ?cfg = "\<lparr>options = Some \<lparr>enable_group_assignment = None, last_files_match_only = None,
           ignore_draft = Some False, ignored_keywords = Some [''WIP'', ''DO NOT MERGE''],
           number_of_reviewers = None\<rparr>,
         files = None, reviewers = None\<rparr>"
  let ?title = "''Fix DO NOT MERGE yet''"
  have kw: "''DO NOT MERGE'' \<in> set (option_or_default ?cfg ignored_keywords [''DO NOT REVIEW''])"
    by (simp add: option_or_default_def)
  have sub: "?title = ''Fix '' @ ''DO NOT MERGE'' @ '' yet''"
    by simp
  have found: "\<exists>keyword \<in> set (option_or_default ?cfg ignored_keywords [''DO NOT REVIEW'']).
      \<exists>pre post. ?title = pre @ keyword @ post"
    using kw sub by blast
  have ign: "option_or_default ?cfg ignore_draft True = False"
    by (simp add: option_or_default_def)
  have "should_request_review ?title True ?cfg =
     (if option_or_default ?cfg ignore_draft True \<and> True then False
      else \<not> (\<exists>keyword \<in> set (option_or_default ?cfg ignored_keywords [''DO NOT REVIEW'']).
                \<exists>pre post. ?title = pre @ keyword @ post))"
    using should_request_review_spec [of ?title True ?cfg] by (rule conjunct1)
  then have "should_request_review ?title True ?cfg =
     (\<not> (\<exists>keyword \<in> set (option_or_default ?cfg ignored_keywords [''DO NOT REVIEW'']).
                \<exists>pre post. ?title = pre @ keyword @ post))"
    by (simp only: ign simp_thms if_False)
  then have "should_request_review ?title True ?cfg = False"
    using found by (simp only: simp_thms)
  then show ?thesis using kw sub by blast
qed

subsection \<open>C8: the Sampler\<close>

text \<open>
  Claim C8: \<^verbatim>\<open>randomly_pick_reviewers\<close> returns its input unchanged when
  \<^verbatim>\<open>number_of_reviewers\<close> is absent. When \<^verbatim>\<open>number_of_reviewers = k\<close> is present and
  \<open>k\<close> is at most the length of the input, the output has length \<open>k\<close> and all its
  elements are elements of the input; when \<open>k\<close> exceeds the length of the input, the
  output has the length of the input. This holds for every source of randomness.
\<close>

theorem randomly_pick_reviewers_spec:
  "(configured_number_of_reviewers cfg = None \<longrightarrow> randomly_pick_reviewers rnd rs cfg = rs)
   \<and> (\<forall>k. configured_number_of_reviewers cfg = Some k \<longrightarrow>
         (k \<le> length rs \<longrightarrow>
            length (randomly_pick_reviewers rnd rs cfg) = k
            \<and> set (randomly_pick_reviewers rnd rs cfg) \<subseteq> set rs)
         \<and> (length rs < k \<longrightarrow> length (randomly_pick_reviewers rnd rs cfg) = length rs))"
  using set_draw [of rnd 0 rs]
  by (auto simp: randomly_pick_reviewers_def sample_size_def length_draw)

text \<open>
  Claim C8 at concrete inputs: no option, two out of four reviewers, and two requested
  out of one.
\<close>

theorem randomly_pick_reviewers_spec_witness:
  "configured_number_of_reviewers \<lparr>options = None, files = None, reviewers = None\<rparr> = None
   \<and> randomly_pick_reviewers (\<lambda>i. 7 * i + 3) [''a'', ''b'', ''c'', ''d'']
        \<lparr>options = None, files = None, reviewers = None\<rparr> = [''a'', ''b'', ''c'', ''d'']
   \<and> configured_number_of_reviewers
        \<lparr>options = Some \<lparr>enable_group_assignment = None, last_files_match_only = None,
           ignore_draft = None, ignored_keywords = None, number_of_reviewers = Some 2\<rparr>,
         files = None, reviewers = None\<rparr> = Some 2
   \<and> (2::nat) \<le> length [''a'', ''b'', ''c'', ''d'']
   \<and> length (randomly_pick_reviewers (\<lambda>i. 7 * i + 3) [''a'', ''b'', ''c'', ''d'']
        \<lparr>options = Some \<lparr>enable_group_assignment = None, last_files_match_only = None,
           ignore_draft = None, ignored_keywords = None, number_of_reviewers = Some 2\<rparr>,
         files = None, reviewers = None\<rparr>) = 2
   \<and> set (randomly_pick_reviewers (\<lambda>i. 7 * i + 3) [''a'', ''b'', ''c'', ''d'']
        \<lparr>options = Some \<lparr>enable_group_assignment = None, last_files_match_only = None,
           ignore_draft = None, ignored_keywords = None, number_of_reviewers = Some 2\<rparr>,
         files = None, reviewers = None\<rparr>) \<subseteq> set [''a'', ''b'', ''c'', ''d'']
   \<and> length [''a''] < (2::nat)
   \<and> length (randomly_pick_reviewers (\<lambda>i. 7 * i + 3) [''a'']
        \<lparr>options = Some \<lparr>enable_group_assignment = None, last_files_match_only = None,
           ignore_draft = None, ignored_keywords = None, number_of_reviewers = Some 2\<rparr>,
         files = None, reviewers = None\<rparr>) = length [''a'']"
  using randomly_pick_reviewers_spec [of "\<lparr>options = None, files = None, reviewers = None\<rparr>"
      "\<lambda>i. 7 * i + 3" "[''a'', ''b'', ''c'', ''d'']"]
    randomly_pick_reviewers_spec [of
      "\<lparr>options = Some \<lparr>enable_group_assignment = None, last_files_match_only = None,
           ignore_draft = None, ignored_keywords = None, number_of_reviewers = Some 2\<rparr>,
         files = None, reviewers = None\<rparr>"
      "\<lambda>i. 7 * i + 3" "[''a'', ''b'', ''c'', ''d'']"]
    randomly_pick_reviewers_spec [of
      "\<lparr>options = Some \<lparr>enable_group_assignment = None, last_files_match_only = None,
           ignore_draft = None, ignored_keywords = None, number_of_reviewers = Some 2\<rparr>,
         files = None, reviewers = None\<rparr>"
      "\<lambda>i. 7 * i + 3" "[''a'']"]
  by (simp add: configured_number_of_reviewers_def)

subsection \<open>C9: the Group Resolver on expanded input\<close>

text \<open>
  Claim C9: for a reviewer list that contains no group name, and an empty exclusion
  set, applying \<^verbatim>\<open>replace_groups_with_individuals\<close> to its own output returns that
  output unchanged; and on a list that also has no duplicates the resolver is the
  identity.
\<close>

theorem replace_groups_idempotent:
  assumes "\<forall>r \<in> set rs. map_of (groups_of cfg) r = None"
  shows "replace_groups_with_individuals (replace_groups_with_individuals rs cfg []) cfg []
           = replace_groups_with_individuals rs cfg []
         \<and> (distinct rs \<longrightarrow> replace_groups_with_individuals rs cfg [] = rs)"
proof -
  have once: "replace_groups_with_individuals rs cfg [] = array_from_set rs"
    using assms by (rule replace_groups_group_free)
  have "\<forall>r \<in> set (array_from_set rs). map_of (groups_of cfg) r = None"
    using assms by (simp add: set_array_from_set)
  then have "replace_groups_with_individuals (array_from_set rs) cfg []
      = array_from_set (array_from_set rs)"
    by (rule replace_groups_group_free)
  also have "\<dots> = array_from_set rs"
    by (rule array_from_set_distinct) (rule distinct_array_from_set)
  finally show ?thesis
    using once by (simp add: array_from_set_distinct)
qed

text \<open>
  Claim C9 at a concrete input: a policy with one group and a list of individuals with
  a repeated identifier.
\<close>

theorem replace_groups_idempotent_witness:
  "map_of (groups_of \<lparr>options = None, files = None,
        reviewers = Some \<lparr>groups = Some [(''backend'', [''carol'', ''dave''])],
          per_author = None, defaults = None\<rparr>\<rparr>) ''alice'' = None
   \<and> map_of (groups_of \<lparr>options = None, files = None,
        reviewers = Some \<lparr>groups = Some [(''backend'', [''carol'', ''dave''])],
          per_author = None, defaults = None\<rparr>\<rparr>) ''bob'' = None
   \<and> replace_groups_with_individuals [''alice'', ''bob'', ''alice'']
        \<lparr>options = None, files = None,
         reviewers = Some \<lparr>groups = Some [(''backend'', [''carol'', ''dave''])],
           per_author = None, defaults = None\<rparr>\<rparr> [] = [''alice'', ''bob'']
   \<and> replace_groups_with_individuals [''alice'', ''bob'']
        \<lparr>options = None, files = None,
         reviewers = Some \<lparr>groups = Some [(''backend'', [''carol'', ''dave''])],
           per_author = None, defaults = None\<rparr>\<rparr> [] = [''alice'', ''bob'']"
proof -
  let ?cfg = "\<lparr>options = None, files = None,
        reviewers = Some \<lparr>groups = Some [(''backend'', [''carol'', ''dave''])],
          per_author = None, defaults = None\<rparr>\<rparr>"
  have h: "\<forall>r \<in> set [''alice'', ''bob'', ''alice'']. map_of (groups_of ?cfg) r = None"
    by (simp add: groups_of_def)
  have v: "replace_groups_with_individuals [''alice'', ''bob'', ''alice''] ?cfg []
      = [''alice'', ''bob'']"
    by (simp add: replace_groups_with_individuals_def groups_of_def expand_reviewer_def
        array_from_set_def set_add_def)
  show ?thesis
    using h v replace_groups_idempotent [OF h] by simp
qed

subsection \<open>C10: the shape of the returned value\<close>



end
